theory Spec2Isabelle
  imports Complex_Main
begin

section \<open>The Plot helper of plot.js\<close>

text \<open>
  The Plot object of \<^verbatim>\<open>src/plot.js\<close> wraps a canvas element and its 2D context and
  keeps a pen position. The model below follows the source method by method.

  \<^item> JavaScript numbers are modelled as \<^typ>\<open>real\<close>: finite values, rounding ignored.
    \<^verbatim>\<open>NaN\<close> and the infinities are outside the model.
  \<^item> Point objects that a field of the Plot instance refers to live in an explicit store
    (\<open>heap\<close>), because the constructor makes \<^verbatim>\<open>lastPoint\<close> and \<^verbatim>\<open>origin\<close> refer to
    one and the same object. An object literal allocates a new cell at the end of the store.
  \<^item> The canvas element and the 2D context are external. The model records, in order,
    every call and every property write the Plot instance issues to them (\<open>surface\<close>).
  \<^item> A method either returns \<^verbatim>\<open>this\<close> (\<open>Inr\<close> of the state) or throws (\<open>Inl\<close> of the error
    together with the state the throw leaves behind).
\<close>

subsection \<open>Data\<close>

datatype error = TypeError | ReferenceError

text \<open>A point object \<^verbatim>\<open>{x: ..., y: ...}\<close>.\<close>

record pnt =
  px :: real
  py :: real

text \<open>A rectangle descriptor \<^verbatim>\<open>{width, height, radius, x, y}\<close> as stored in \<^verbatim>\<open>this.rects\<close>.\<close>

record rect =
  width :: real
  height :: real
  radius :: real
  rx :: real
  ry :: real

datatype context2d = Context2D

text \<open>
  What \<^verbatim>\<open>document.getElementById\<close> may return: an element with numeric \<^verbatim>\<open>width\<close> and
  \<^verbatim>\<open>height\<close>. \<open>el_getContext\<close> is \<open>None\<close> when the element has no \<^verbatim>\<open>getContext\<close> method,
  \<open>Some None\<close> when \<^verbatim>\<open>getContext("2d")\<close> returns \<^verbatim>\<open>null\<close>, and \<open>Some (Some c)\<close> when it
  returns a context.
\<close>

record element =
  el_width :: real
  el_height :: real
  el_getContext :: "context2d option option"

text \<open>The calls and property writes issued to the canvas element and its context.\<close>

datatype call =
    SetStrokeStyle string
  | SetLineWidth real
  | MoveTo real real
  | LineTo real real
  | ArcCall real real real real real bool
  | ArcToCall real real real real real
  | QuadraticCurveTo real real real real
  | StrokeRect real real real real
  | StrokeText string real real
  | StrokeCall
  | FillCall
  | BeginPath
  | ClosePath
  | SetCanvasWidth real

text \<open>
  The fields of a Plot instance (\<open>lastPoint\<close> and \<open>origin\<close> are addresses into \<open>heap\<close>;
  \<open>ident\<close> is \<^verbatim>\<open>this.id\<close>; \<open>context'\<close> is \<open>None\<close> when \<^verbatim>\<open>this.context\<close> is \<^verbatim>\<open>undefined\<close> or
  \<^verbatim>\<open>null\<close>; \<open>rects\<close> is \<open>None\<close> until \<^verbatim>\<open>roundRect\<close> creates the object), together with the
  store and the log of the surface.
\<close>

record plot =
  heap :: "pnt list"
  lastPoint :: nat
  origin :: nat
  ident :: string
  isDrawing :: bool
  canvas :: "element option"
  context' :: "context2d option"
  rects :: "(string \<rightharpoonup> rect) option"
  surface :: "call list"

type_synonym result = "(error \<times> plot) + plot"

subsection \<open>Helpers of the embedding\<close>

text \<open>Reading the object at an address.\<close>

definition deref :: "plot \<Rightarrow> nat \<Rightarrow> pnt" where
  "deref s a = heap s ! a"

text \<open>The state a call leaves behind, whether it returned or threw.\<close>

definition final :: "result \<Rightarrow> plot" where
  "final r = (case r of Inl (e, s) \<Rightarrow> s | Inr s \<Rightarrow> s)"

text \<open>Chaining \<^verbatim>\<open>a.f()\<close> after a call: a throw ends the chain.\<close>

definition andThen :: "result \<Rightarrow> (plot \<Rightarrow> result) \<Rightarrow> result" where
  "andThen r f = (case r of Inl e \<Rightarrow> Inl e | Inr s \<Rightarrow> f s)"

text \<open>
  \<^verbatim>\<open>this.context.m(args)\<close> and \<^verbatim>\<open>this.context.p = v\<close>: a TypeError when the context is
  absent, otherwise the call reaches the surface.
\<close>

definition ctx_call :: "call \<Rightarrow> plot \<Rightarrow> result" where
  "ctx_call c s =
     (case context' s of
        None \<Rightarrow> Inl (TypeError, s)
      | Some _ \<Rightarrow> Inr (s\<lparr>surface := surface s @ [c]\<rparr>))"

text \<open>\<^verbatim>\<open>v || d\<close> on an optional number: \<^verbatim>\<open>undefined\<close> and \<^verbatim>\<open>0\<close> are falsy.\<close>

definition js_or :: "real option \<Rightarrow> real \<Rightarrow> real" where
  "js_or v d = (case v of None \<Rightarrow> d | Some n \<Rightarrow> if n = 0 then d else n)"

text \<open>\<^verbatim>\<open>v || d\<close> on an optional string: \<^verbatim>\<open>undefined\<close> and the empty string are falsy.\<close>

definition js_or_str :: "string option \<Rightarrow> string \<Rightarrow> string" where
  "js_or_str v d = (case v of None \<Rightarrow> d | Some t \<Rightarrow> if t = [] then d else t)"

subsection \<open>The constructor\<close>

text \<open>
  \<^verbatim>\<open>new Plot(id, lineColor, lineWidth)\<close>, with \<^verbatim>\<open>document.getElementById\<close> as a parameter.
  \<^verbatim>\<open>lastPoint\<close> and \<^verbatim>\<open>origin\<close> both refer to the one object at address 0.
\<close>

definition Plot :: "(string \<Rightarrow> element option) \<Rightarrow> string \<Rightarrow> string option \<Rightarrow> real option \<Rightarrow> plot" where
  "Plot getElementById i lineColor lineWidth =
     (let cv = getElementById i;
          cx = (case cv of
                  None \<Rightarrow> None
                | Some el \<Rightarrow> (case el_getContext el of None \<Rightarrow> None | Some g \<Rightarrow> g))
      in \<lparr> heap = [\<lparr>px = 0, py = 0\<rparr>],
           lastPoint = 0,
           origin = 0,
           ident = i,
           isDrawing = False,
           canvas = cv,
           context' = cx,
           rects = None,
           surface = (case cx of
                        None \<Rightarrow> []
                      | Some _ \<Rightarrow> [SetStrokeStyle (js_or_str lineColor ''#000''),
                                   SetLineWidth (js_or lineWidth 1)]) \<rparr>)"

text \<open>\<^verbatim>\<open>Plot.convert = Math.PI/180\<close>.\<close>

definition convert :: real where
  "convert = pi / 180"

subsection \<open>Positioning\<close>

text \<open>
  \<^verbatim>\<open>updateLastPoint\<close> builds a new point object and makes \<^verbatim>\<open>this.lastPoint\<close> refer to it.
  An omitted \<^verbatim>\<open>absolute\<close> is \<^verbatim>\<open>undefined\<close>, which is falsy: callers that omit it pass
  \<open>False\<close>.
\<close>

definition updateLastPoint :: "real \<Rightarrow> real \<Rightarrow> bool \<Rightarrow> plot \<Rightarrow> plot" where
  "updateLastPoint x y absolute s =
     (let p = (if absolute then \<lparr>px = x, py = y\<rparr>
               else \<lparr>px = x + px (deref s (lastPoint s)),
                     py = y + py (deref s (lastPoint s))\<rparr>)
      in s\<lparr>heap := heap s @ [p], lastPoint := length (heap s)\<rparr>)"

definition move :: "real \<Rightarrow> real \<Rightarrow> bool \<Rightarrow> plot \<Rightarrow> result" where
  "move x y absolute s =
     (let s1 = updateLastPoint x y absolute s
      in ctx_call (MoveTo (px (deref s1 (lastPoint s1))) (py (deref s1 (lastPoint s1)))) s1)"

definition hmove :: "real \<Rightarrow> plot \<Rightarrow> result" where
  "hmove x s = move x 0 False s"

definition vmove :: "real \<Rightarrow> plot \<Rightarrow> result" where
  "vmove y s = move 0 y False s"

definition home :: "plot \<Rightarrow> result" where
  "home s =
     (let s1 = updateLastPoint (px (deref s (origin s))) (py (deref s (origin s))) True s
      in ctx_call (MoveTo (px (deref s1 (lastPoint s1))) (py (deref s1 (lastPoint s1)))) s1)"

subsection \<open>Path drawing\<close>

definition line :: "real \<Rightarrow> real \<Rightarrow> plot \<Rightarrow> result" where
  "line x y s =
     (let s1 = updateLastPoint x y False s
      in ctx_call (LineTo (px (deref s1 (lastPoint s1))) (py (deref s1 (lastPoint s1)))) s1)"

definition stroke :: "plot \<Rightarrow> result" where
  "stroke s = ctx_call StrokeCall s"

definition fill :: "plot \<Rightarrow> result" where
  "fill s = ctx_call FillCall s"

definition hline :: "real \<Rightarrow> plot \<Rightarrow> result" where
  "hline x s = line x 0 s"

definition vline :: "real \<Rightarrow> plot \<Rightarrow> result" where
  "vline y s = line 0 y s"

text \<open>
  \<^verbatim>\<open>arc\<close> multiplies the angles by the identifier \<^verbatim>\<open>c\<close>, which no scope of the program
  declares: its value comes from the global object. \<open>gc\<close> is what the global object holds
  for \<^verbatim>\<open>c\<close>, \<open>None\<close> when it holds nothing (the case of the program on its own), and then
  evaluating the argument throws a ReferenceError. The callee \<^verbatim>\<open>this.context.arc\<close> is
  evaluated before the arguments.
\<close>

definition arc :: "real option \<Rightarrow> real \<Rightarrow> real \<Rightarrow> real \<Rightarrow> real \<Rightarrow> real \<Rightarrow> plot \<Rightarrow> result" where
  "arc gc x y r startAngle endAngle s =
     (case context' s of
        None \<Rightarrow> Inl (TypeError, s)
      | Some _ \<Rightarrow>
          (case gc of
             None \<Rightarrow> Inl (ReferenceError, s)
           | Some c \<Rightarrow>
               Inr (s\<lparr>surface := surface s @
                        [ArcCall x y r (startAngle * c) (endAngle * c) False]\<rparr>)))"

definition arcTo :: "real \<Rightarrow> real \<Rightarrow> real \<Rightarrow> plot \<Rightarrow> result" where
  "arcTo ax ay r s =
     (let lp = deref s (lastPoint s)
      in andThen (ctx_call (ArcToCall (px lp) (py lp) (px lp + ax) (py lp + ay) r) s)
           (\<lambda>s1. Inr (updateLastPoint ax ay False s1)))"

definition ne :: "real \<Rightarrow> plot \<Rightarrow> result" where
  "ne r s =
     (let x = px (deref s (lastPoint s)); y = py (deref s (lastPoint s))
      in andThen (ctx_call (QuadraticCurveTo x (y - r) (x + r) (y - r)) s)
           (move r (- r) False))"

definition se :: "real \<Rightarrow> plot \<Rightarrow> result" where
  "se r s =
     (let x = px (deref s (lastPoint s)); y = py (deref s (lastPoint s))
      in andThen (ctx_call (QuadraticCurveTo x (y + r) (x + r) (y + r)) s)
           (move r r False))"

definition nw :: "real \<Rightarrow> plot \<Rightarrow> result" where
  "nw r s =
     (let x = px (deref s (lastPoint s)); y = py (deref s (lastPoint s))
      in andThen (ctx_call (QuadraticCurveTo x (y - r) (x - r) (y - r)) s)
           (move (- r) (- r) False))"

definition sw :: "real \<Rightarrow> plot \<Rightarrow> result" where
  "sw r s =
     (let x = px (deref s (lastPoint s)); y = py (deref s (lastPoint s))
      in andThen (ctx_call (QuadraticCurveTo x (y + r) (x - r) (y + r)) s)
           (move (- r) r False))"

definition wn :: "real \<Rightarrow> plot \<Rightarrow> result" where
  "wn r s =
     (let x = px (deref s (lastPoint s)); y = py (deref s (lastPoint s))
      in andThen (ctx_call (QuadraticCurveTo (x - r) y (x - r) (y - r)) s)
           (move (- r) (- r) False))"

definition ws :: "real \<Rightarrow> plot \<Rightarrow> result" where
  "ws r s =
     (let x = px (deref s (lastPoint s)); y = py (deref s (lastPoint s))
      in andThen (ctx_call (QuadraticCurveTo (x - r) y (x - r) (y + r)) s)
           (move (- r) r False))"

definition en :: "real \<Rightarrow> plot \<Rightarrow> result" where
  "en r s =
     (let x = px (deref s (lastPoint s)); y = py (deref s (lastPoint s))
      in andThen (ctx_call (QuadraticCurveTo (x + r) y (x + r) (y - r)) s)
           (move r (- r) False))"

definition es :: "real \<Rightarrow> plot \<Rightarrow> result" where
  "es r s =
     (let x = px (deref s (lastPoint s)); y = py (deref s (lastPoint s))
      in andThen (ctx_call (QuadraticCurveTo (x + r) y (x + r) (y + r)) s)
           (move r r False))"

subsection \<open>Centre, style and path lifecycle\<close>

text \<open>
  \<^verbatim>\<open>getCenter\<close> reads \<^verbatim>\<open>this.canvas.width\<close>: a TypeError when \<^verbatim>\<open>this.canvas\<close> is \<^verbatim>\<open>null\<close>.
  The point it returns is never stored in the instance, so it is a plain value here.
\<close>

definition getCenter :: "plot \<Rightarrow> (error \<times> plot) + pnt" where
  "getCenter s =
     (case canvas s of
        None \<Rightarrow> Inl (TypeError, s)
      | Some cv \<Rightarrow> Inr \<lparr>px = el_width cv / 2, py = el_height cv / 2\<rparr>)"

definition centerRect :: "real \<Rightarrow> real option \<Rightarrow> plot \<Rightarrow> result" where
  "centerRect w h s =
     (case getCenter s of
        Inl e \<Rightarrow> Inl e
      | Inr ctr \<Rightarrow>
          (let h1 = js_or h w
           in ctx_call (StrokeRect (px ctr - w / 2) (py ctr - h1 / 2) w h1) s))"

definition setLineColor :: "string \<Rightarrow> plot \<Rightarrow> result" where
  "setLineColor color s = ctx_call (SetStrokeStyle color) s"

definition setLineWidth :: "real \<Rightarrow> plot \<Rightarrow> result" where
  "setLineWidth w s = ctx_call (SetLineWidth w) s"

definition center :: "plot \<Rightarrow> result" where
  "center s =
     (case getCenter s of
        Inl e \<Rightarrow> Inl e
      | Inr c \<Rightarrow> move (px c) (py c) True s)"

text \<open>The methods \<^verbatim>\<open>begin\<close> and \<^verbatim>\<open>end\<close> carry a prime: their names are Isabelle keywords.\<close>

definition begin' :: "plot \<Rightarrow> result" where
  "begin' s = ctx_call BeginPath s"

definition start :: "plot \<Rightarrow> result" where
  "start s = andThen (move 0 0 False s) begin'"

definition end' :: "bool \<Rightarrow> plot \<Rightarrow> result" where
  "end' closePath s =
     andThen (ctx_call StrokeCall s)
       (\<lambda>s1. andThen (if closePath then ctx_call ClosePath s1 else Inr s1)
          (\<lambda>s2. Inr (if isDrawing s2 then s2\<lparr>isDrawing := False\<rparr> else s2)))"

text \<open>
  \<^verbatim>\<open>reset\<close> assigns the canvas element's width to itself: a TypeError when \<^verbatim>\<open>this.canvas\<close>
  is \<^verbatim>\<open>null\<close>, otherwise one property write on the element.
\<close>

definition reset :: "plot \<Rightarrow> result" where
  "reset s =
     (case canvas s of
        None \<Rightarrow> Inl (TypeError, s)
      | Some cv \<Rightarrow>
          Inr (s\<lparr>canvas := Some (cv\<lparr>el_width := el_width cv\<rparr>),
                 surface := surface s @ [SetCanvasWidth (el_width cv)]\<rparr>))"

definition point :: "plot \<Rightarrow> result" where
  "point s =
     andThen (begin' s)
       (\<lambda>s1. andThen
          (ctx_call (StrokeText ''.'' (px (deref s1 (lastPoint s1))) (py (deref s1 (lastPoint s1)))) s1)
          (end' False))"

subsection \<open>Rounded rectangles\<close>

text \<open>
  \<^verbatim>\<open>roundRect(width, height, radius, x, y, id)\<close>; an omitted \<^verbatim>\<open>x\<close> or \<^verbatim>\<open>y\<close> is \<open>None\<close>.
  The descriptor is stored before the outline is drawn.
\<close>

definition roundRect :: "real \<Rightarrow> real \<Rightarrow> real \<Rightarrow> real option \<Rightarrow> real option \<Rightarrow> string \<Rightarrow> plot \<Rightarrow> result" where
  "roundRect w h r x y i s =
     (case getCenter s of
        Inl e \<Rightarrow> Inl e
      | Inr ctr \<Rightarrow>
          (let x1 = js_or x (px ctr - (w / 2) + r);
               y1 = js_or y (py ctr - (h / 2));
               m = (case rects s of None \<Rightarrow> Map.empty | Some m0 \<Rightarrow> m0);
               s1 = s\<lparr>rects := Some (m(i \<mapsto>
                        \<lparr>width = w, height = h, radius = r, rx = x1, ry = y1\<rparr>))\<rparr>
           in andThen (andThen (andThen (andThen (andThen (andThen (andThen (andThen (andThen (andThen
                (start s1)
                (move x1 y1 True))
                (hline (w - r - r)))
                (es r))
                (vline (h - r - r)))
                (sw r))
                (hline (- w + r + r)))
                (wn r))
                (vline (- h + r + r)))
                (ne r))
                (end' False)))"

subsection \<open>Sequences of calls\<close>

text \<open>
  One constructor per method of the prototype. \<^verbatim>\<open>getCenter\<close> and \<^verbatim>\<open>loc\<close> return a value
  instead of \<^verbatim>\<open>this\<close> and only read the instance.
\<close>

datatype action =
    M_updateLastPoint real real bool
  | M_move real real bool
  | M_hmove real
  | M_vmove real
  | M_home
  | M_line real real
  | M_stroke
  | M_fill
  | M_hline real
  | M_vline real
  | M_arc "real option" real real real real real
  | M_arcTo real real real
  | M_ne real
  | M_se real
  | M_nw real
  | M_sw real
  | M_wn real
  | M_ws real
  | M_en real
  | M_es real
  | M_centerRect real "real option"
  | M_setLineColor string
  | M_setLineWidth real
  | M_getCenter
  | M_center
  | M_begin
  | M_start
  | M_end bool
  | M_reset
  | M_point
  | M_loc
  | M_roundRect real real real "real option" "real option" string

text \<open>
  The state after one call. A caller may catch a throw and go on, so the state a throw
  leaves behind counts as well.
\<close>

fun exec :: "action \<Rightarrow> plot \<Rightarrow> plot" where
  "exec (M_updateLastPoint x y a) s = updateLastPoint x y a s"
| "exec (M_move x y a) s = final (move x y a s)"
| "exec (M_hmove x) s = final (hmove x s)"
| "exec (M_vmove y) s = final (vmove y s)"
| "exec M_home s = final (home s)"
| "exec (M_line x y) s = final (line x y s)"
| "exec M_stroke s = final (stroke s)"
| "exec M_fill s = final (fill s)"
| "exec (M_hline x) s = final (hline x s)"
| "exec (M_vline y) s = final (vline y s)"
| "exec (M_arc gc x y r a b) s = final (arc gc x y r a b s)"
| "exec (M_arcTo ax ay r) s = final (arcTo ax ay r s)"
| "exec (M_ne r) s = final (ne r s)"
| "exec (M_se r) s = final (se r s)"
| "exec (M_nw r) s = final (nw r s)"
| "exec (M_sw r) s = final (sw r s)"
| "exec (M_wn r) s = final (wn r s)"
| "exec (M_ws r) s = final (ws r s)"
| "exec (M_en r) s = final (en r s)"
| "exec (M_es r) s = final (es r s)"
| "exec (M_centerRect w h) s = final (centerRect w h s)"
| "exec (M_setLineColor c) s = final (setLineColor c s)"
| "exec (M_setLineWidth w) s = final (setLineWidth w s)"
| "exec M_getCenter s = s"
| "exec M_center s = final (center s)"
| "exec M_begin s = final (begin' s)"
| "exec M_start s = final (start s)"
| "exec (M_end cp) s = final (end' cp s)"
| "exec M_reset s = final (reset s)"
| "exec M_point s = final (point s)"
| "exec M_loc s = s"
| "exec (M_roundRect w h r x y i) s = final (roundRect w h r x y i s)"

fun run :: "action list \<Rightarrow> plot \<Rightarrow> plot" where
  "run [] s = s"
| "run (m # ms) s = run ms (exec m s)"

subsection \<open>Observations and example inputs\<close>

text \<open>The pen position: the point object \<^verbatim>\<open>this.lastPoint\<close> refers to.\<close>

definition pen :: "plot \<Rightarrow> pnt" where
  "pen s = deref s (lastPoint s)"

text \<open>Reading \<^verbatim>\<open>this.rects[id]\<close>, with \<open>None\<close> when the registry or the entry is absent.\<close>

definition rect_at :: "plot \<Rightarrow> string \<Rightarrow> rect option" where
  "rect_at s i = (case rects s of None \<Rightarrow> None | Some m \<Rightarrow> m i)"

text \<open>A document in which no id is found, and one in which every id is a canvas of the
  given size that hands out a 2D context.\<close>

definition empty_document :: "string \<Rightarrow> element option" where
  "empty_document i = None"

definition canvas_document :: "real \<Rightarrow> real \<Rightarrow> string \<Rightarrow> element option" where
  "canvas_document w h i =
     Some \<lparr>el_width = w, el_height = h, el_getContext = Some (Some Context2D)\<rparr>"

text \<open>
  \<^verbatim>\<open>start\<close> as the specification words it: an absolute move to \<open>(0, 0)\<close> followed by
  \<^verbatim>\<open>begin\<close>. This definition follows the specification, not the source.
\<close>

definition start_spec :: "plot \<Rightarrow> result" where
  "start_spec s = andThen (move 0 0 True s) begin'"

text \<open>
  What no drawing method touches: \<open>frame s t\<close> says that from \<open>s\<close> to \<open>t\<close> the fields
  \<^verbatim>\<open>origin\<close>, \<^verbatim>\<open>id\<close>, \<^verbatim>\<open>canvas\<close>, \<^verbatim>\<open>context\<close> and \<^verbatim>\<open>rects\<close> are the same, \<^verbatim>\<open>isDrawing\<close>
  has not become true, and the store has only grown. \<open>evolves\<close> is the same without
  \<^verbatim>\<open>rects\<close>.
\<close>

definition frame :: "plot \<Rightarrow> plot \<Rightarrow> bool" where
  "frame s t \<longleftrightarrow>
     origin t = origin s \<and> ident t = ident s \<and> canvas t = canvas s \<and>
     context' t = context' s \<and> rects t = rects s \<and>
     (isDrawing t \<longrightarrow> isDrawing s) \<and>
     take (length (heap s)) (heap t) = heap s"

definition evolves :: "plot \<Rightarrow> plot \<Rightarrow> bool" where
  "evolves s t \<longleftrightarrow>
     origin t = origin s \<and> ident t = ident s \<and> canvas t = canvas s \<and>
     context' t = context' s \<and>
     (isDrawing t \<longrightarrow> isDrawing s) \<and>
     take (length (heap s)) (heap t) = heap s"

text \<open>The methods whose body runs \<^verbatim>\<open>end\<close>: \<^verbatim>\<open>end\<close> itself, \<^verbatim>\<open>point\<close> and \<^verbatim>\<open>roundRect\<close>.\<close>

fun calls_end :: "action \<Rightarrow> bool" where
  "calls_end (M_end cp) = True"
| "calls_end M_point = True"
| "calls_end (M_roundRect w h r x y i) = True"
| "calls_end m = False"

section \<open>Properties\<close>

subsection \<open>Evaluation of the helpers\<close>

lemma final_simps [simp]:
  "final (Inl (e, s)) = s"
  "final (Inr s) = s"
  by (simp_all add: final_def)

lemma andThen_simps [simp]:
  "andThen (Inl e) f = Inl e"
  "andThen (Inr s) f = f s"
  by (simp_all add: andThen_def)

subsection \<open>What every method leaves alone\<close>

named_theorems frame_intros

lemma take_prefix_iff: "take (length xs) ys = xs \<longleftrightarrow> (\<exists>zs. ys = xs @ zs)"
  by (metis append_eq_conv_conj append_take_drop_id)

lemma frame_refl [frame_intros]: "frame s s"
  by (simp add: frame_def)

lemma frame_trans: "frame s t \<Longrightarrow> frame t u \<Longrightarrow> frame s u"
  unfolding frame_def take_prefix_iff by auto

lemma evolves_refl: "evolves s s"
  by (simp add: evolves_def)

lemma evolves_trans: "evolves s t \<Longrightarrow> evolves t u \<Longrightarrow> evolves s u"
  unfolding evolves_def take_prefix_iff by auto

lemma frame_evolves: "frame s t \<Longrightarrow> evolves s t"
  by (simp add: frame_def evolves_def)

lemma frame_updateLastPoint: "frame s (updateLastPoint x y a s)"
  by (simp add: frame_def updateLastPoint_def Let_def)

lemma frame_ctx_call: "frame s (final (ctx_call c s))"
  by (simp add: frame_def ctx_call_def split: option.splits)

lemma frame_andThen:
  assumes "frame s (final r)" and "\<And>s1. frame s1 (final (f s1))"
  shows "frame s (final (andThen r f))"
proof (cases r)
  case (Inl e)
  with assms(1) show ?thesis by simp
next
  case (Inr s1)
  with assms(1) have "frame s s1" by simp
  moreover have "frame s1 (final (f s1))" by (rule assms(2))
  ultimately show ?thesis using Inr by (simp add: frame_trans)
qed

lemma frame_move [frame_intros]: "frame s (final (move x y a s))"
  unfolding move_def Let_def
  by (rule frame_trans [OF frame_updateLastPoint frame_ctx_call])

lemma frame_line [frame_intros]: "frame s (final (line x y s))"
  unfolding line_def Let_def
  by (rule frame_trans [OF frame_updateLastPoint frame_ctx_call])

lemma frame_home [frame_intros]: "frame s (final (home s))"
  unfolding home_def Let_def
  by (rule frame_trans [OF frame_updateLastPoint frame_ctx_call])

lemma frame_simple [frame_intros]:
  "frame s (final (hmove x s))"
  "frame s (final (vmove y s))"
  "frame s (final (hline x s))"
  "frame s (final (vline y s))"
  "frame s (final (stroke s))"
  "frame s (final (fill s))"
  "frame s (final (begin' s))"
  "frame s (final (setLineColor col s))"
  "frame s (final (setLineWidth w s))"
  by (simp_all add: hmove_def vmove_def hline_def vline_def stroke_def fill_def begin'_def
      setLineColor_def setLineWidth_def frame_move frame_line frame_ctx_call)

lemma frame_arc [frame_intros]: "frame s (final (arc gc x y r a b s))"
  by (simp add: arc_def frame_def split: option.splits)

lemma frame_arcTo [frame_intros]: "frame s (final (arcTo ax ay r s))"
  unfolding arcTo_def Let_def
  by (rule frame_andThen [OF frame_ctx_call]) (simp add: frame_updateLastPoint)

lemma frame_corners [frame_intros]:
  "frame s (final (ne r s))"
  "frame s (final (se r s))"
  "frame s (final (nw r s))"
  "frame s (final (sw r s))"
  "frame s (final (wn r s))"
  "frame s (final (ws r s))"
  "frame s (final (en r s))"
  "frame s (final (es r s))"
  unfolding ne_def se_def nw_def sw_def wn_def ws_def en_def es_def Let_def
  by (rule frame_andThen [OF frame_ctx_call frame_move])+

lemma frame_centerRect [frame_intros]: "frame s (final (centerRect w h s))"
  by (simp add: centerRect_def getCenter_def Let_def frame_ctx_call frame_refl split: option.splits)

lemma frame_center [frame_intros]: "frame s (final (center s))"
  by (simp add: center_def getCenter_def frame_move frame_refl split: option.splits)

lemma frame_start [frame_intros]: "frame s (final (start s))"
  unfolding start_def
  by (rule frame_andThen [OF frame_move]) (rule frame_simple)

lemma frame_end [frame_intros]: "frame s (final (end' cp s))"
  unfolding end'_def
  apply (rule frame_andThen [OF frame_ctx_call])
  apply (rule frame_andThen)
   apply (simp add: frame_ctx_call frame_refl)
  apply (simp add: frame_def)
  done

lemma frame_reset [frame_intros]: "frame s (final (reset s))"
  by (simp add: reset_def frame_def split: option.splits)

lemma frame_point [frame_intros]: "frame s (final (point s))"
  unfolding point_def
  apply (rule frame_andThen [OF frame_simple(7)])
  apply (rule frame_andThen [OF frame_ctx_call frame_end])
  done

lemma frame_roundRect_chain:
  "frame s1 (final (andThen (andThen (andThen (andThen (andThen (andThen (andThen (andThen (andThen (andThen
                (start s1)
                (move x1 y1 True))
                (hline a))
                (es r))
                (vline b))
                (sw r))
                (hline c))
                (wn r))
                (vline d))
                (ne r))
                (end' False)))"
  by (intro frame_andThen frame_intros)

lemma evolves_roundRect: "evolves s (final (roundRect w h r x y i s))"
proof (cases "canvas s")
  case None
  then show ?thesis by (simp add: roundRect_def getCenter_def evolves_refl)
next
  case (Some cv)
  have "evolves s (s\<lparr>rects := m\<rparr>)" for m by (simp add: evolves_def)
  then show ?thesis using Some
    by (simp add: roundRect_def getCenter_def Let_def)
      (blast intro: evolves_trans frame_evolves frame_roundRect_chain)
qed

lemma evolves_exec: "evolves s (exec m s)"
  by (cases m) (simp_all add: frame_evolves frame_intros evolves_roundRect evolves_refl frame_updateLastPoint)

lemma evolves_run: "evolves s (run ms s)"
  by (induction ms arbitrary: s) (auto intro: evolves_refl evolves_trans evolves_exec)

subsection \<open>Moving the pen\<close>

lemma pen_updateLastPoint:
  "pen (updateLastPoint x y a s) =
     (if a then \<lparr>px = x, py = y\<rparr> else \<lparr>px = x + px (pen s), py = y + py (pen s)\<rparr>)"
  by (simp add: pen_def deref_def updateLastPoint_def Let_def)

lemma final_ctx_call:
  "final (ctx_call c s) =
     (case context' s of None \<Rightarrow> s | Some _ \<Rightarrow> s\<lparr>surface := surface s @ [c]\<rparr>)"
  by (simp add: ctx_call_def split: option.splits)

lemma pen_surface_update [simp]: "pen (s\<lparr>surface := t\<rparr>) = pen s"
  by (simp add: pen_def deref_def)

text \<open>
  C1. For every state and all numbers \<open>dx\<close>, \<open>dy\<close>: a relative \<^verbatim>\<open>move\<close> puts the pen at the
  prior position plus \<open>(dx, dy)\<close>, an absolute \<^verbatim>\<open>move\<close> puts it at exactly \<open>(dx, dy)\<close>, and
  whatever the flag, no other field of the instance changes and the objects already in
  the store stay as they were. This holds whether the call returns or throws.
\<close>

theorem move_sets_lastPoint:
  "pen (final (move dx dy False s)) = \<lparr>px = px (pen s) + dx, py = py (pen s) + dy\<rparr>
   \<and> pen (final (move dx dy True s)) = \<lparr>px = dx, py = dy\<rparr>
   \<and> origin (final (move dx dy a s)) = origin s
   \<and> ident (final (move dx dy a s)) = ident s
   \<and> isDrawing (final (move dx dy a s)) = isDrawing s
   \<and> canvas (final (move dx dy a s)) = canvas s
   \<and> context' (final (move dx dy a s)) = context' s
   \<and> rects (final (move dx dy a s)) = rects s
   \<and> take (length (heap s)) (heap (final (move dx dy a s))) = heap s"
  by (simp add: move_def Let_def final_ctx_call pen_updateLastPoint add.commute
      split: option.splits)
    (simp add: updateLastPoint_def Let_def)

subsection \<open>The origin\<close>

lemma pen_final_ctx_call [simp]: "pen (final (ctx_call c s)) = pen s"
  by (simp add: final_ctx_call split: option.splits)

lemma pen_home: "pen (final (home s)) = deref s (origin s)"
  by (simp add: home_def Let_def pen_updateLastPoint)

lemma evolves_origin_object:
  assumes "evolves s t" and "origin s < length (heap s)"
  shows "origin t < length (heap t) \<and> deref t (origin t) = deref s (origin s)"
proof -
  from assms(1) obtain zs where h: "heap t = heap s @ zs" and o: "origin t = origin s"
    unfolding evolves_def take_prefix_iff by blast
  with assms(2) show ?thesis by (simp add: deref_def nth_append)
qed

lemma Plot_origin:
  "origin (Plot g i lc lw) < length (heap (Plot g i lc lw))"
  "deref (Plot g i lc lw) (origin (Plot g i lc lw)) = \<lparr>px = 0, py = 0\<rparr>"
  "lastPoint (Plot g i lc lw) = origin (Plot g i lc lw)"
  "isDrawing (Plot g i lc lw) = False"
  by (simp_all add: Plot_def Let_def deref_def)

text \<open>
  C7. The constructor makes \<^verbatim>\<open>lastPoint\<close> and \<^verbatim>\<open>origin\<close> refer to one object. After any
  sequence of calls on the constructed instance, returning or throwing, the object
  \<^verbatim>\<open>origin\<close> refers to is still \<open>(0, 0)\<close>, and \<^verbatim>\<open>home\<close> leaves the pen at \<open>(0, 0)\<close>.
\<close>

theorem home_returns_to_origin:
  "lastPoint (Plot g i lc lw) = origin (Plot g i lc lw)
   \<and> deref (run ms (Plot g i lc lw)) (origin (run ms (Plot g i lc lw))) = \<lparr>px = 0, py = 0\<rparr>
   \<and> pen (final (home (run ms (Plot g i lc lw)))) = \<lparr>px = 0, py = 0\<rparr>"
  using evolves_origin_object [OF evolves_run [of "Plot g i lc lw" ms] Plot_origin(1)]
  by (simp add: pen_home Plot_origin)

theorem home_returns_to_origin_witness:
  "pen (final (home (run [M_move 3 4 False, M_line 1 1, M_roundRect 100 50 10 None None ''b'']
      (Plot (canvas_document 200 100) ''c'' None None)))) = \<lparr>px = 0, py = 0\<rparr>"
  using home_returns_to_origin [of "canvas_document 200 100" "''c''" None None
      "[M_move 3 4 False, M_line 1 1, M_roundRect 100 50 10 None None ''b'']"]
  by simp

subsection \<open>The drawing flag\<close>

lemma evolves_isDrawing: "evolves s t \<Longrightarrow> isDrawing t \<Longrightarrow> isDrawing s"
  by (simp add: evolves_def)

lemma isDrawing_updateLastPoint [simp]: "isDrawing (updateLastPoint x y a s) = isDrawing s"
  by (simp add: updateLastPoint_def Let_def)

lemma isDrawing_ctx_call [simp]: "isDrawing (final (ctx_call c s)) = isDrawing s"
  by (simp add: final_ctx_call split: option.splits)

lemma isDrawing_move [simp]: "isDrawing (final (move x y a s)) = isDrawing s"
  by (simp add: move_def Let_def)

lemma isDrawing_line [simp]: "isDrawing (final (line x y s)) = isDrawing s"
  by (simp add: line_def Let_def)

lemma isDrawing_andThen:
  assumes "isDrawing (final r) = isDrawing s"
    and "\<And>s1. isDrawing (final (f s1)) = isDrawing s1"
  shows "isDrawing (final (andThen r f)) = isDrawing s"
  using assms by (cases r) auto

lemma isDrawing_corners [simp]:
  "isDrawing (final (ne r s)) = isDrawing s"
  "isDrawing (final (se r s)) = isDrawing s"
  "isDrawing (final (nw r s)) = isDrawing s"
  "isDrawing (final (sw r s)) = isDrawing s"
  "isDrawing (final (wn r s)) = isDrawing s"
  "isDrawing (final (ws r s)) = isDrawing s"
  "isDrawing (final (en r s)) = isDrawing s"
  "isDrawing (final (es r s)) = isDrawing s"
  unfolding ne_def se_def nw_def sw_def wn_def ws_def en_def es_def Let_def
  by (rule isDrawing_andThen, simp, simp)+

lemma isDrawing_other:
  "\<not> calls_end m \<Longrightarrow> isDrawing (exec m s) = isDrawing s"
proof (cases m)
  case (M_arc gc x y r a b)
  then show ?thesis by (simp add: arc_def split: option.splits)
next
  case (M_arcTo ax ay r)
  then show ?thesis by (simp add: arcTo_def Let_def isDrawing_andThen)
next
  case M_start
  then show ?thesis by (simp add: start_def begin'_def isDrawing_andThen)
next
  case M_reset
  then show ?thesis by (simp add: reset_def split: option.splits)
qed (simp_all add: hmove_def vmove_def home_def Let_def stroke_def fill_def hline_def
    vline_def centerRect_def center_def getCenter_def setLineColor_def setLineWidth_def
    begin'_def split: option.splits)

text \<open>
  C9. The constructor sets \<^verbatim>\<open>isDrawing\<close> to false; it is false after any sequence of calls
  on the constructed instance; no call, from any state, makes it true; and a call of a
  method whose body does not run \<^verbatim>\<open>end\<close> leaves it as it was.
\<close>

theorem isDrawing_never_set:
  "isDrawing (Plot g i lc lw) = False
   \<and> isDrawing (run ms (Plot g i lc lw)) = False
   \<and> (isDrawing (exec m s) \<longrightarrow> isDrawing s)
   \<and> (\<not> calls_end m \<longrightarrow> isDrawing (exec m s) = isDrawing s)"
  using evolves_isDrawing [OF evolves_run [of "Plot g i lc lw" ms]]
    evolves_isDrawing [OF evolves_exec [of s m]] isDrawing_other [of m s]
  by (auto simp add: Plot_origin)

theorem isDrawing_never_set_witness:
  "isDrawing (exec (M_line 1 2) ((Plot empty_document ''c'' None None)\<lparr>isDrawing := True\<rparr>))
   \<and> \<not> calls_end (M_line 1 2)
   \<and> isDrawing ((Plot empty_document ''c'' None None)\<lparr>isDrawing := True\<rparr>)
   \<and> isDrawing (run [M_start, M_end True] (Plot (canvas_document 200 100) ''c'' None None)) = False"
  using isDrawing_never_set [of "canvas_document 200 100" "''c''" None None "[M_start, M_end True]"
      "M_line 1 2" "(Plot empty_document ''c'' None None)\<lparr>isDrawing := True\<rparr>"]
  by (simp add: line_def Let_def updateLastPoint_def ctx_call_def Plot_def empty_document_def)

subsection \<open>Where each drawing method leaves the pen\<close>

lemma ctx_call_Some: "context' s = Some c \<Longrightarrow> ctx_call k s = Inr (s\<lparr>surface := surface s @ [k]\<rparr>)"
  by (simp add: ctx_call_def)

lemma ctx_call_None: "context' s = None \<Longrightarrow> ctx_call k s = Inl (TypeError, s)"
  by (simp add: ctx_call_def)

lemma lastPoint_ctx_call [simp]: "lastPoint (final (ctx_call c s)) = lastPoint s"
  by (simp add: final_ctx_call split: option.splits)

lemma heap_ctx_call [simp]: "heap (final (ctx_call c s)) = heap s"
  by (simp add: final_ctx_call split: option.splits)

lemma lastPoint_updateLastPoint [simp]: "lastPoint (updateLastPoint x y a s) = length (heap s)"
  by (simp add: updateLastPoint_def Let_def)

lemma pen_move:
  "pen (final (move dx dy a s)) =
     (if a then \<lparr>px = dx, py = dy\<rparr> else \<lparr>px = px (pen s) + dx, py = py (pen s) + dy\<rparr>)"
  by (simp add: move_def Let_def pen_updateLastPoint add.commute)

lemma lastPoint_move: "lastPoint (final (move dx dy a s)) = length (heap s)"
  by (simp add: move_def Let_def)

lemma pen_line: "pen (final (line dx dy s)) = \<lparr>px = px (pen s) + dx, py = py (pen s) + dy\<rparr>"
  by (simp add: line_def Let_def pen_updateLastPoint add.commute)

lemma lastPoint_line: "lastPoint (final (line dx dy s)) = length (heap s)"
  by (simp add: line_def Let_def)

lemma arcTo_pen:
  "context' s = Some c \<Longrightarrow>
     pen (final (arcTo dx dy r s)) = \<lparr>px = px (pen s) + dx, py = py (pen s) + dy\<rparr>
     \<and> lastPoint (final (arcTo dx dy r s)) = length (heap s)"
  by (simp add: arcTo_def Let_def ctx_call_Some pen_updateLastPoint add.commute)

lemma corner_pen:
  assumes "context' s = Some c"
  shows "pen (final (ne r s)) = \<lparr>px = px (pen s) + r, py = py (pen s) - r\<rparr>"
    and "pen (final (en r s)) = \<lparr>px = px (pen s) + r, py = py (pen s) - r\<rparr>"
    and "pen (final (se r s)) = \<lparr>px = px (pen s) + r, py = py (pen s) + r\<rparr>"
    and "pen (final (es r s)) = \<lparr>px = px (pen s) + r, py = py (pen s) + r\<rparr>"
    and "pen (final (nw r s)) = \<lparr>px = px (pen s) - r, py = py (pen s) - r\<rparr>"
    and "pen (final (wn r s)) = \<lparr>px = px (pen s) - r, py = py (pen s) - r\<rparr>"
    and "pen (final (sw r s)) = \<lparr>px = px (pen s) - r, py = py (pen s) + r\<rparr>"
    and "pen (final (ws r s)) = \<lparr>px = px (pen s) - r, py = py (pen s) + r\<rparr>"
  using assms
  by (simp_all add: ne_def se_def nw_def sw_def wn_def ws_def en_def es_def Let_def
      ctx_call_Some pen_move)

lemma corner_lastPoint:
  assumes "context' s = Some c"
  shows "lastPoint (final (ne r s)) = length (heap s)"
    and "lastPoint (final (en r s)) = length (heap s)"
    and "lastPoint (final (se r s)) = length (heap s)"
    and "lastPoint (final (es r s)) = length (heap s)"
    and "lastPoint (final (nw r s)) = length (heap s)"
    and "lastPoint (final (wn r s)) = length (heap s)"
    and "lastPoint (final (sw r s)) = length (heap s)"
    and "lastPoint (final (ws r s)) = length (heap s)"
  using assms
  by (simp_all add: ne_def se_def nw_def sw_def wn_def ws_def en_def es_def Let_def
      ctx_call_Some lastPoint_move)

lemma corner_returns:
  assumes "context' s = Some c"
  shows "\<not> isl (ne r s)" and "\<not> isl (en r s)" and "\<not> isl (se r s)" and "\<not> isl (es r s)"
    and "\<not> isl (nw r s)" and "\<not> isl (wn r s)" and "\<not> isl (sw r s)" and "\<not> isl (ws r s)"
  using assms
  by (simp_all add: ne_def se_def nw_def sw_def wn_def ws_def en_def es_def Let_def
      ctx_call_Some move_def updateLastPoint_def)

lemma Plot_canvas_document:
  "context' (Plot (canvas_document w h) i lc lw) = Some Context2D"
  "canvas (Plot (canvas_document w h) i lc lw) =
     Some \<lparr>el_width = w, el_height = h, el_getContext = Some (Some Context2D)\<rparr>"
  "pen (Plot g i lc lw) = \<lparr>px = 0, py = 0\<rparr>"
  "rects (Plot g i lc lw) = None"
  "heap (Plot g i lc lw) = [\<lparr>px = 0, py = 0\<rparr>]"
  by (simp_all add: Plot_def canvas_document_def Let_def pen_def deref_def)

lemma Plot_empty_document:
  "context' (Plot empty_document i lc lw) = None"
  "canvas (Plot empty_document i lc lw) = None"
  by (simp_all add: Plot_def empty_document_def)

lemma context_move [simp]: "context' (final (move x y a s)) = context' s"
  using frame_move [of s x y a] by (simp add: frame_def)

text \<open>
  C5. On an instance with a context, each corner helper returns and leaves the pen at the
  prior position plus its offset: \<^verbatim>\<open>ne\<close> and \<^verbatim>\<open>en\<close> at \<open>(x + r, y - r)\<close>, \<^verbatim>\<open>se\<close> and \<^verbatim>\<open>es\<close> at
  \<open>(x + r, y + r)\<close>, \<^verbatim>\<open>nw\<close> and \<^verbatim>\<open>wn\<close> at \<open>(x - r, y - r)\<close>, \<^verbatim>\<open>sw\<close> and \<^verbatim>\<open>ws\<close> at
  \<open>(x - r, y + r)\<close>, for every radius \<open>r\<close> and every prior position.
\<close>

theorem corner_helpers_offsets:
  assumes "context' s = Some c"
  shows "\<not> isl (ne r s) \<and> pen (final (ne r s)) = \<lparr>px = px (pen s) + r, py = py (pen s) - r\<rparr>
    \<and> \<not> isl (en r s) \<and> pen (final (en r s)) = \<lparr>px = px (pen s) + r, py = py (pen s) - r\<rparr>
    \<and> \<not> isl (se r s) \<and> pen (final (se r s)) = \<lparr>px = px (pen s) + r, py = py (pen s) + r\<rparr>
    \<and> \<not> isl (es r s) \<and> pen (final (es r s)) = \<lparr>px = px (pen s) + r, py = py (pen s) + r\<rparr>
    \<and> \<not> isl (nw r s) \<and> pen (final (nw r s)) = \<lparr>px = px (pen s) - r, py = py (pen s) - r\<rparr>
    \<and> \<not> isl (wn r s) \<and> pen (final (wn r s)) = \<lparr>px = px (pen s) - r, py = py (pen s) - r\<rparr>
    \<and> \<not> isl (sw r s) \<and> pen (final (sw r s)) = \<lparr>px = px (pen s) - r, py = py (pen s) + r\<rparr>
    \<and> \<not> isl (ws r s) \<and> pen (final (ws r s)) = \<lparr>px = px (pen s) - r, py = py (pen s) + r\<rparr>"
  using corner_pen [OF assms, of r] corner_returns [OF assms, of r] by simp

theorem corner_helpers_offsets_witness:
  "context' (final (move 10 20 True (Plot (canvas_document 200 100) ''c'' None None)))
     = Some Context2D
   \<and> pen (final (ne 5 (final (move 10 20 True (Plot (canvas_document 200 100) ''c'' None None)))))
     = \<lparr>px = 15, py = 15\<rparr>
   \<and> pen (final (sw 5 (final (move 10 20 True (Plot (canvas_document 200 100) ''c'' None None)))))
     = \<lparr>px = 5, py = 25\<rparr>"
  using corner_helpers_offsets
    [of "final (move 10 20 True (Plot (canvas_document 200 100) ''c'' None None))" Context2D 5]
  by (simp add: pen_move Plot_canvas_document)

text \<open>
  C8. \<^verbatim>\<open>arc\<close> leaves \<^verbatim>\<open>lastPoint\<close> referring to the same object, the store as it was and so
  the pen where it was, for all arguments and whatever the global \<^verbatim>\<open>c\<close> holds. Every
  other path-drawing method makes \<^verbatim>\<open>lastPoint\<close> refer to a point object allocated by the
  call, at the prior position plus the method's offset: \<^verbatim>\<open>line\<close>, \<^verbatim>\<open>hline\<close> and \<^verbatim>\<open>vline\<close> in
  every state, \<^verbatim>\<open>arcTo\<close> and the corner helpers when the instance has a context.
\<close>

theorem arc_keeps_lastPoint:
  "lastPoint (final (arc gc cx cy r a b s)) = lastPoint s
   \<and> heap (final (arc gc cx cy r a b s)) = heap s
   \<and> pen (final (arc gc cx cy r a b s)) = pen s
   \<and> lastPoint (final (line dx dy s)) = length (heap s)
   \<and> pen (final (line dx dy s)) = \<lparr>px = px (pen s) + dx, py = py (pen s) + dy\<rparr>
   \<and> lastPoint (final (hline dx s)) = length (heap s)
   \<and> pen (final (hline dx s)) = \<lparr>px = px (pen s) + dx, py = py (pen s)\<rparr>
   \<and> lastPoint (final (vline dy s)) = length (heap s)
   \<and> pen (final (vline dy s)) = \<lparr>px = px (pen s), py = py (pen s) + dy\<rparr>
   \<and> (context' s \<noteq> None \<longrightarrow>
        lastPoint (final (arcTo dx dy r s)) = length (heap s)
        \<and> pen (final (arcTo dx dy r s)) = \<lparr>px = px (pen s) + dx, py = py (pen s) + dy\<rparr>
        \<and> lastPoint (final (ne r s)) = length (heap s)
        \<and> lastPoint (final (en r s)) = length (heap s)
        \<and> lastPoint (final (se r s)) = length (heap s)
        \<and> lastPoint (final (es r s)) = length (heap s)
        \<and> lastPoint (final (nw r s)) = length (heap s)
        \<and> lastPoint (final (wn r s)) = length (heap s)
        \<and> lastPoint (final (sw r s)) = length (heap s)
        \<and> lastPoint (final (ws r s)) = length (heap s))"
proof -
  have arc1: "lastPoint (final (arc gc cx cy r a b s)) = lastPoint s"
    and arc2: "heap (final (arc gc cx cy r a b s)) = heap s"
    by (simp_all add: arc_def split: option.splits)
  then have arc3: "pen (final (arc gc cx cy r a b s)) = pen s"
    by (simp add: pen_def deref_def)
  have lines: "lastPoint (final (hline dx s)) = length (heap s)"
    "pen (final (hline dx s)) = \<lparr>px = px (pen s) + dx, py = py (pen s)\<rparr>"
    "lastPoint (final (vline dy s)) = length (heap s)"
    "pen (final (vline dy s)) = \<lparr>px = px (pen s), py = py (pen s) + dy\<rparr>"
    by (simp_all add: hline_def vline_def pen_line lastPoint_line)
  show ?thesis
    using arcTo_pen [of s _ dx dy r] corner_lastPoint [of s _ r]
    by (auto simp add: arc1 arc2 arc3 lines pen_line lastPoint_line)
qed

theorem arc_keeps_lastPoint_witness:
  "context' (Plot (canvas_document 200 100) ''c'' None None) \<noteq> None
   \<and> pen (final (arc None 100 50 10 0 90 (Plot (canvas_document 200 100) ''c'' None None)))
       = \<lparr>px = 0, py = 0\<rparr>
   \<and> pen (final (arc (Some 1) 100 50 10 0 90 (Plot (canvas_document 200 100) ''c'' None None)))
       = \<lparr>px = 0, py = 0\<rparr>
   \<and> pen (final (arcTo 3 4 10 (Plot (canvas_document 200 100) ''c'' None None)))
       = \<lparr>px = 3, py = 4\<rparr>
   \<and> lastPoint (final (es 10 (Plot (canvas_document 200 100) ''c'' None None))) = 1"
  using arc_keeps_lastPoint [of None 100 50 10 0 90 "Plot (canvas_document 200 100) ''c'' None None" 3 4]
    arc_keeps_lastPoint [of "Some 1" 100 50 10 0 90 "Plot (canvas_document 200 100) ''c'' None None"]
  by (simp add: Plot_canvas_document)

subsection \<open>The angles of an arc\<close>

lemma arc_unbound: "context' s = Some k \<Longrightarrow> arc None x y r a b s = Inl (ReferenceError, s)"
  by (simp add: arc_def)

lemma arc_bound:
  "context' s = Some k \<Longrightarrow>
     arc (Some c) x y r a b s = Inr (s\<lparr>surface := surface s @ [ArcCall x y r (a * c) (b * c) False]\<rparr>)"
  by (simp add: arc_def)

text \<open>
  C3. The claim is that \<^verbatim>\<open>arc\<close> issues one arc command with its angles multiplied by
  \<open>pi / 180\<close>. In the program on its own the identifier \<^verbatim>\<open>c\<close> is bound nowhere: on an
  instance with a context, \<^verbatim>\<open>arc(0, 0, 10, 0, 90)\<close> throws a ReferenceError and nothing
  reaches the surface. With a global \<^verbatim>\<open>c\<close> supplied from outside, the angles are multiplied
  by whatever it holds (here \<open>1\<close>: \<open>90\<close> is passed on as \<open>90\<close>), and \<^verbatim>\<open>Plot.convert\<close> is never
  read.
\<close>

theorem arc_unbound_c_throws:
  "arc None 0 0 10 0 90 (Plot (canvas_document 200 100) ''c'' None None)
     = Inl (ReferenceError, Plot (canvas_document 200 100) ''c'' None None)
   \<and> surface (final (arc None 0 0 10 0 90 (Plot (canvas_document 200 100) ''c'' None None)))
     = surface (Plot (canvas_document 200 100) ''c'' None None)
   \<and> surface (final (arc (Some 1) 0 0 10 0 90 (Plot (canvas_document 200 100) ''c'' None None)))
     = surface (Plot (canvas_document 200 100) ''c'' None None) @ [ArcCall 0 0 10 0 90 False]"
  by (simp add: arc_unbound arc_bound Plot_canvas_document)

subsection \<open>Starting a path\<close>

lemma context_updateLastPoint [simp]: "context' (updateLastPoint x y a s) = context' s"
  by (simp add: updateLastPoint_def Let_def)

lemma surface_updateLastPoint [simp]: "surface (updateLastPoint x y a s) = surface s"
  by (simp add: updateLastPoint_def Let_def)

lemma move_None:
  "context' s = None \<Longrightarrow> move x y a s = Inl (TypeError, updateLastPoint x y a s)"
  by (simp add: move_def Let_def ctx_call_None)

lemma move_Some:
  "context' s = Some k \<Longrightarrow>
     move x y a s = Inr ((updateLastPoint x y a s)\<lparr>surface := surface s @
       [MoveTo (px (pen (updateLastPoint x y a s))) (py (pen (updateLastPoint x y a s)))]\<rparr>)"
  by (simp add: move_def Let_def ctx_call_Some pen_def)

lemma start_None:
  "context' s = None \<Longrightarrow> start s = Inl (TypeError, updateLastPoint 0 0 False s)"
  by (simp add: start_def move_None)

lemma start_Some:
  "context' s = Some k \<Longrightarrow>
     start s = Inr ((updateLastPoint 0 0 False s)
       \<lparr>surface := surface s @ [MoveTo (px (pen s)) (py (pen s)), BeginPath]\<rparr>)"
  by (simp add: start_def move_Some begin'_def ctx_call_Some pen_updateLastPoint)

lemma pen_start: "pen (final (start s)) = pen s"
proof (cases "context' s")
  case None
  then show ?thesis by (simp add: start_None pen_updateLastPoint)
next
  case (Some k)
  then show ?thesis by (simp add: start_Some pen_updateLastPoint)
qed

text \<open>
  C4 as stated: \<^verbatim>\<open>start\<close> puts the pen at \<open>(0, 0)\<close> and is the same as \<^verbatim>\<open>move(0, 0, true)\<close>
  followed by \<^verbatim>\<open>begin\<close>. On a 200 by 100 canvas, after \<^verbatim>\<open>move(5, 7, true)\<close>, \<^verbatim>\<open>start\<close> leaves
  the pen at \<open>(5, 7)\<close>, while the sequence of the claim leaves it at \<open>(0, 0)\<close>.
\<close>

theorem start_not_absolute_counterexample:
  "pen (final (start (run [M_move 5 7 True] (Plot (canvas_document 200 100) ''c'' None None))))
     = \<lparr>px = 5, py = 7\<rparr>
   \<and> pen (final (start_spec (run [M_move 5 7 True] (Plot (canvas_document 200 100) ''c'' None None))))
     = \<lparr>px = 0, py = 0\<rparr>
   \<and> start (run [M_move 5 7 True] (Plot (canvas_document 200 100) ''c'' None None))
     \<noteq> start_spec (run [M_move 5 7 True] (Plot (canvas_document 200 100) ''c'' None None))"
proof -
  let ?s = "run [M_move 5 7 True] (Plot (canvas_document 200 100) ''c'' None None)"
  have c: "context' ?s = Some Context2D" by (simp add: Plot_canvas_document)
  have p: "pen (final (start ?s)) = \<lparr>px = 5, py = 7\<rparr>"
    by (simp add: pen_start pen_move)
  have q: "pen (final (start_spec ?s)) = \<lparr>px = 0, py = 0\<rparr>"
    using c
    by (simp add: start_spec_def move_Some begin'_def ctx_call_Some pen_updateLastPoint)
  from p q have "start ?s \<noteq> start_spec ?s" by auto
  with p q show ?thesis by blast
qed

text \<open>
  C4, amended. \<^verbatim>\<open>start\<close> is a relative move by \<open>(0, 0)\<close> followed by \<^verbatim>\<open>begin\<close>: the pen
  stays where it was, and on an instance with a context the call returns after issuing a
  \<^verbatim>\<open>moveTo\<close> to the current pen position and a \<^verbatim>\<open>beginPath\<close>.
\<close>

theorem start_keeps_pen:
  "start s = andThen (move 0 0 False s) begin'
   \<and> pen (final (start s)) = pen s
   \<and> (context' s \<noteq> None \<longrightarrow>
        \<not> isl (start s)
        \<and> surface (final (start s)) = surface s @ [MoveTo (px (pen s)) (py (pen s)), BeginPath])"
proof -
  have "start s = andThen (move 0 0 False s) begin'" by (simp add: start_def)
  moreover have "pen (final (start s)) = pen s" by (rule pen_start)
  moreover have "\<not> isl (start s) \<and>
      surface (final (start s)) = surface s @ [MoveTo (px (pen s)) (py (pen s)), BeginPath]"
    if "context' s \<noteq> None"
    using that start_Some [of s] by auto
  ultimately show ?thesis by blast
qed

theorem start_keeps_pen_witness:
  "context' (run [M_move 5 7 True] (Plot (canvas_document 200 100) ''c'' None None)) \<noteq> None
   \<and> pen (final (start (run [M_move 5 7 True] (Plot (canvas_document 200 100) ''c'' None None))))
       = \<lparr>px = 5, py = 7\<rparr>
   \<and> surface (final (start (run [M_move 5 7 True] (Plot (canvas_document 200 100) ''c'' None None))))
       = [SetStrokeStyle ''#000'', SetLineWidth 1, MoveTo 5 7, MoveTo 5 7, BeginPath]"
proof -
  let ?p = "Plot (canvas_document 200 100) ''c'' None None"
  let ?s = "run [M_move 5 7 True] ?p"
  have c: "context' ?s \<noteq> None" by (simp add: Plot_canvas_document)
  have p: "pen ?s = \<lparr>px = 5, py = 7\<rparr>" by (simp add: pen_move)
  have "surface ?p = [SetStrokeStyle ''#000'', SetLineWidth 1]"
    by (simp add: Plot_def canvas_document_def js_or_def js_or_str_def Let_def)
  then have u: "surface ?s = [SetStrokeStyle ''#000'', SetLineWidth 1, MoveTo 5 7]"
    by (simp add: move_Some [of ?p Context2D] Plot_canvas_document pen_updateLastPoint)
  from start_keeps_pen [of ?s, THEN conjunct2] c
  have "pen (final (start ?s)) = pen ?s"
    and "surface (final (start ?s)) = surface ?s @ [MoveTo (px (pen ?s)) (py (pen ?s)), BeginPath]"
    by blast+
  with c p u show ?thesis by simp
qed

subsection \<open>An instance without a context\<close>

lemma context_run: "context' (run ms s) = context' s"
  using evolves_run [of s ms] by (simp add: evolves_def)

lemma line_None:
  "context' s = None \<Longrightarrow> line x y s = Inl (TypeError, updateLastPoint x y False s)"
  by (simp add: line_def Let_def ctx_call_None)

lemma home_None:
  "context' s = None \<Longrightarrow>
     home s = Inl (TypeError,
       updateLastPoint (px (deref s (origin s))) (py (deref s (origin s))) True s)"
  by (simp add: home_def Let_def ctx_call_None)

lemma corners_None:
  assumes "context' s = None"
  shows "ne r s = Inl (TypeError, s)" and "se r s = Inl (TypeError, s)"
    and "nw r s = Inl (TypeError, s)" and "sw r s = Inl (TypeError, s)"
    and "wn r s = Inl (TypeError, s)" and "ws r s = Inl (TypeError, s)"
    and "en r s = Inl (TypeError, s)" and "es r s = Inl (TypeError, s)"
  using assms
  by (simp_all add: ne_def se_def nw_def sw_def wn_def ws_def en_def es_def Let_def ctx_call_None)

lemma center_None:
  "context' s = None \<Longrightarrow>
     center s = Inl (TypeError,
       case canvas s of
         None \<Rightarrow> s
       | Some cv \<Rightarrow> updateLastPoint (el_width cv / 2) (el_height cv / 2) True s)"
  by (simp add: center_def getCenter_def move_None split: option.splits)

lemma roundRect_None:
  "context' s = None \<Longrightarrow>
     roundRect w h r x y i s = Inl (TypeError,
       case canvas s of
         None \<Rightarrow> s
       | Some cv \<Rightarrow>
           updateLastPoint 0 0 False
             (s\<lparr>rects := Some ((case rects s of None \<Rightarrow> Map.empty | Some m0 \<Rightarrow> m0)(i \<mapsto>
                \<lparr>width = w, height = h, radius = r,
                 rx = js_or x (el_width cv / 2 - (w / 2) + r),
                 ry = js_or y (el_height cv / 2 - (h / 2))\<rparr>))\<rparr>))"
  by (simp add: roundRect_def getCenter_def Let_def start_None split: option.splits)

text \<open>
  C2 as stated: on an instance whose lookup failed, a drawing call is a no-op or fails
  with \<^verbatim>\<open>lastPoint\<close> unchanged. With no element in the document, \<^verbatim>\<open>move(3, 4)\<close> throws, and
  the pen, at \<open>(0, 0)\<close> before the call, is at \<open>(3, 4)\<close> after it.
\<close>

theorem move_without_context_counterexample:
  "context' (Plot empty_document ''c'' None None) = None
   \<and> move 3 4 False (Plot empty_document ''c'' None None)
       = Inl (TypeError, final (move 3 4 False (Plot empty_document ''c'' None None)))
   \<and> pen (Plot empty_document ''c'' None None) = \<lparr>px = 0, py = 0\<rparr>
   \<and> pen (final (move 3 4 False (Plot empty_document ''c'' None None))) = \<lparr>px = 3, py = 4\<rparr>"
  by (simp add: Plot_empty_document Plot_canvas_document move_None pen_updateLastPoint)

text \<open>
  C2, amended. On an instance whose constructor left the context unset, in every state
  reached from it, no call that uses the context is a no-op: each throws a TypeError.
  \<^verbatim>\<open>stroke\<close>, \<^verbatim>\<open>fill\<close>, \<^verbatim>\<open>begin\<close>, \<^verbatim>\<open>end\<close>, \<^verbatim>\<open>arc\<close>, \<^verbatim>\<open>arcTo\<close>, the eight corner helpers,
  \<^verbatim>\<open>centerRect\<close>, \<^verbatim>\<open>point\<close>, \<^verbatim>\<open>setLineColor\<close> and \<^verbatim>\<open>setLineWidth\<close> throw with the state as it
  was. \<^verbatim>\<open>move\<close>, \<^verbatim>\<open>hmove\<close>, \<^verbatim>\<open>vmove\<close>, \<^verbatim>\<open>line\<close>, \<^verbatim>\<open>hline\<close>, \<^verbatim>\<open>vline\<close>, \<^verbatim>\<open>home\<close> and \<^verbatim>\<open>start\<close> throw
  after \<^verbatim>\<open>updateLastPoint\<close> has run, and so do \<^verbatim>\<open>center\<close> and \<^verbatim>\<open>roundRect\<close> when the
  instance has a canvas element (\<^verbatim>\<open>roundRect\<close> after storing its descriptor as well);
  without an element these two throw with the state as it was.
\<close>

theorem calls_without_context:
  assumes "context' (Plot g i lc lw) = None" and "s = run ms (Plot g i lc lw)"
  shows "stroke s = Inl (TypeError, s)
    \<and> fill s = Inl (TypeError, s)
    \<and> begin' s = Inl (TypeError, s)
    \<and> end' cp s = Inl (TypeError, s)
    \<and> arc gc x y r a b s = Inl (TypeError, s)
    \<and> arcTo x y r s = Inl (TypeError, s)
    \<and> ne r s = Inl (TypeError, s) \<and> se r s = Inl (TypeError, s)
    \<and> nw r s = Inl (TypeError, s) \<and> sw r s = Inl (TypeError, s)
    \<and> wn r s = Inl (TypeError, s) \<and> ws r s = Inl (TypeError, s)
    \<and> en r s = Inl (TypeError, s) \<and> es r s = Inl (TypeError, s)
    \<and> centerRect w ho s = Inl (TypeError, s)
    \<and> point s = Inl (TypeError, s)
    \<and> setLineColor col s = Inl (TypeError, s)
    \<and> setLineWidth w s = Inl (TypeError, s)
    \<and> move x y ab s = Inl (TypeError, updateLastPoint x y ab s)
    \<and> hmove x s = Inl (TypeError, updateLastPoint x 0 False s)
    \<and> vmove y s = Inl (TypeError, updateLastPoint 0 y False s)
    \<and> line x y s = Inl (TypeError, updateLastPoint x y False s)
    \<and> hline x s = Inl (TypeError, updateLastPoint x 0 False s)
    \<and> vline y s = Inl (TypeError, updateLastPoint 0 y False s)
    \<and> home s = Inl (TypeError,
          updateLastPoint (px (deref s (origin s))) (py (deref s (origin s))) True s)
    \<and> start s = Inl (TypeError, updateLastPoint 0 0 False s)
    \<and> center s = Inl (TypeError,
          case canvas s of
            None \<Rightarrow> s
          | Some cv \<Rightarrow> updateLastPoint (el_width cv / 2) (el_height cv / 2) True s)
    \<and> roundRect rw rh rr xo yo k s = Inl (TypeError,
          case canvas s of
            None \<Rightarrow> s
          | Some cv \<Rightarrow>
              updateLastPoint 0 0 False
                (s\<lparr>rects := Some ((case rects s of None \<Rightarrow> Map.empty | Some m0 \<Rightarrow> m0)(k \<mapsto>
                   \<lparr>width = rw, height = rh, radius = rr,
                    rx = js_or xo (el_width cv / 2 - (rw / 2) + rr),
                    ry = js_or yo (el_height cv / 2 - (rh / 2))\<rparr>))\<rparr>))
    \<and> pen (updateLastPoint x y False s) = \<lparr>px = x + px (pen s), py = y + py (pen s)\<rparr>
    \<and> pen (updateLastPoint x y True s) = \<lparr>px = x, py = y\<rparr>"
proof -
  from assms have c: "context' s = None" by (simp add: context_run)
  have simple: "stroke s = Inl (TypeError, s)" "fill s = Inl (TypeError, s)"
    "begin' s = Inl (TypeError, s)" "end' cp s = Inl (TypeError, s)"
    "arc gc x y r a b s = Inl (TypeError, s)" "arcTo x y r s = Inl (TypeError, s)"
    "centerRect w ho s = Inl (TypeError, s)" "point s = Inl (TypeError, s)"
    "setLineColor col s = Inl (TypeError, s)" "setLineWidth w s = Inl (TypeError, s)"
    using c
    by (simp_all add: stroke_def fill_def begin'_def end'_def arc_def arcTo_def Let_def
        centerRect_def getCenter_def point_def setLineColor_def setLineWidth_def ctx_call_None
        split: option.splits)
  have moves: "hmove x s = Inl (TypeError, updateLastPoint x 0 False s)"
    "vmove y s = Inl (TypeError, updateLastPoint 0 y False s)"
    "hline x s = Inl (TypeError, updateLastPoint x 0 False s)"
    "vline y s = Inl (TypeError, updateLastPoint 0 y False s)"
    using c by (simp_all add: hmove_def vmove_def hline_def vline_def move_None line_None)
  show ?thesis
    by (simp only: simple moves corners_None [OF c] move_None [OF c] line_None [OF c]
        home_None [OF c] start_None [OF c] center_None [OF c] roundRect_None [OF c]
        pen_updateLastPoint if_True if_False simp_thms)
qed

theorem calls_without_context_witness:
  "context' (Plot empty_document ''c'' None None) = None
   \<and> stroke (run [M_line 1 2] (Plot empty_document ''c'' None None))
       = Inl (TypeError, run [M_line 1 2] (Plot empty_document ''c'' None None))
   \<and> es 5 (run [M_line 1 2] (Plot empty_document ''c'' None None))
       = Inl (TypeError, run [M_line 1 2] (Plot empty_document ''c'' None None))
   \<and> pen (final (move 3 4 False (run [M_line 1 2] (Plot empty_document ''c'' None None))))
       = \<lparr>px = 4, py = 6\<rparr>"
proof -
  let ?s = "run [M_line 1 2] (Plot empty_document ''c'' None None)"
  have c: "context' (Plot empty_document ''c'' None None) = None"
    by (simp add: Plot_empty_document)
  have p: "pen ?s = \<lparr>px = 1, py = 2\<rparr>"
    by (simp add: pen_line Plot_canvas_document)
  from calls_without_context [OF c refl, where ms = "[M_line 1 2]" and x = 3 and y = 4
      and r = 5 and ab = False]
  show ?thesis using c p by simp
qed

subsection \<open>The registry of rounded rectangles\<close>

lemma rects_roundRect:
  assumes "canvas s = Some cv"
  shows "rects (final (roundRect w h r x y i s)) =
     Some ((case rects s of None \<Rightarrow> Map.empty | Some m0 \<Rightarrow> m0)(i \<mapsto>
       \<lparr>width = w, height = h, radius = r,
        rx = js_or x (el_width cv / 2 - (w / 2) + r),
        ry = js_or y (el_height cv / 2 - (h / 2))\<rparr>))"
  using assms
  by (simp add: roundRect_def getCenter_def Let_def frame_roundRect_chain [unfolded frame_def])

lemma canvas_roundRect: "canvas (final (roundRect w h r x y i s)) = canvas s"
  using evolves_roundRect [of s w h r x y i] by (simp add: evolves_def)

lemma rect_at_roundRect:
  assumes "canvas s = Some cv"
  shows "rect_at (final (roundRect w h r x y i s)) j =
     (if j = i
      then Some \<lparr>width = w, height = h, radius = r,
                 rx = js_or x (el_width cv / 2 - (w / 2) + r),
                 ry = js_or y (el_height cv / 2 - (h / 2))\<rparr>
      else rect_at s j)"
  by (simp add: rect_at_def rects_roundRect [OF assms] split: option.splits)

text \<open>
  A run of the whole method: on a 200 by 100 canvas, \<^verbatim>\<open>roundRect(100, 50, 10)\<close> with \<open>x\<close> and
  \<open>y\<close> omitted issues these calls, after the two property writes of the constructor, and
  leaves the pen where the outline began.
\<close>

lemma roundRect_example_trace:
  "surface (final (roundRect 100 50 10 None None ''box1''
      (Plot (canvas_document 200 100) ''c'' None None)))
   = [SetStrokeStyle ''#000'', SetLineWidth 1,
      MoveTo 0 0, BeginPath, MoveTo 60 25,
      LineTo 140 25, QuadraticCurveTo 150 25 150 35, MoveTo 150 35,
      LineTo 150 65, QuadraticCurveTo 150 75 140 75, MoveTo 140 75,
      LineTo 60 75, QuadraticCurveTo 50 75 50 65, MoveTo 50 65,
      LineTo 50 35, QuadraticCurveTo 50 25 60 25, MoveTo 60 25,
      StrokeCall]
   \<and> pen (final (roundRect 100 50 10 None None ''box1''
      (Plot (canvas_document 200 100) ''c'' None None))) = \<lparr>px = 60, py = 25\<rparr>"
  by (simp add: roundRect_def getCenter_def Plot_def canvas_document_def Let_def js_or_def
      js_or_str_def start_def move_def hline_def vline_def line_def es_def sw_def wn_def ne_def
      end'_def begin'_def ctx_call_def updateLastPoint_def deref_def pen_def nth_append)

text \<open>
  C6 as stated: the descriptor stored under \<open>id\<close> holds the \<open>x\<close> and \<open>y\<close> of the call, with
  the centred defaults for omitted ones. On a 200 by 100 canvas,
  \<^verbatim>\<open>roundRect(100, 50, 10, 0, 0, "box1")\<close> passes \<open>x = 0\<close> and \<open>y = 0\<close>, and the descriptor
  stored holds \<open>x = 60\<close> and \<open>y = 25\<close>.
\<close>

theorem roundRect_zero_counterexample:
  "rect_at (final (roundRect 100 50 10 (Some 0) (Some 0) ''box1''
       (Plot (canvas_document 200 100) ''c'' None None))) ''box1''
     = Some \<lparr>width = 100, height = 50, radius = 10, rx = 60, ry = 25\<rparr>
   \<and> rect_at (final (roundRect 100 50 10 (Some 0) (Some 0) ''box1''
       (Plot (canvas_document 200 100) ''c'' None None))) ''box1''
     \<noteq> Some \<lparr>width = 100, height = 50, radius = 10, rx = 0, ry = 0\<rparr>"
  by (simp add: rect_at_roundRect [OF Plot_canvas_document(2)] js_or_def)

text \<open>
  C6, amended. On an instance with a canvas element, \<^verbatim>\<open>roundRect\<close> stores under \<open>id\<close> the
  descriptor of its width, height and radius with \<open>x\<close> and \<open>y\<close>, where an \<open>x\<close> that is omitted
  or \<open>0\<close> is replaced by \<open>centerX - width/2 + radius\<close> and a \<open>y\<close> that is omitted or \<open>0\<close> by
  \<open>centerY - height/2\<close>, the centre being read at the call. Entries under other ids stay;
  a second call with the same id replaces the entry;
  \<^verbatim>\<open>roundRect(100, 50, 10, undefined, undefined, "box1")\<close> stores
  \<open>x = centerX - 40\<close> and \<open>y = centerY - 25\<close>.
\<close>

theorem roundRect_records:
  assumes "canvas s = Some cv"
  shows "rect_at (final (roundRect w h r x y i s)) i =
      Some \<lparr>width = w, height = h, radius = r,
            rx = (case x of
                    None \<Rightarrow> el_width cv / 2 - w / 2 + r
                  | Some v \<Rightarrow> if v = 0 then el_width cv / 2 - w / 2 + r else v),
            ry = (case y of
                    None \<Rightarrow> el_height cv / 2 - h / 2
                  | Some v \<Rightarrow> if v = 0 then el_height cv / 2 - h / 2 else v)\<rparr>
    \<and> (j \<noteq> i \<longrightarrow> rect_at (final (roundRect w h r x y i s)) j = rect_at s j)
    \<and> rect_at (final (roundRect w2 h2 r2 x2 y2 i (final (roundRect w h r x y i s)))) i =
      Some \<lparr>width = w2, height = h2, radius = r2,
            rx = (case x2 of
                    None \<Rightarrow> el_width cv / 2 - w2 / 2 + r2
                  | Some v \<Rightarrow> if v = 0 then el_width cv / 2 - w2 / 2 + r2 else v),
            ry = (case y2 of
                    None \<Rightarrow> el_height cv / 2 - h2 / 2
                  | Some v \<Rightarrow> if v = 0 then el_height cv / 2 - h2 / 2 else v)\<rparr>
    \<and> rect_at (final (roundRect 100 50 10 None None ''box1'' s)) ''box1'' =
      Some \<lparr>width = 100, height = 50, radius = 10,
            rx = el_width cv / 2 - 40, ry = el_height cv / 2 - 25\<rparr>"
proof -
  have again: "canvas (final (roundRect w h r x y i s)) = Some cv"
    using assms by (simp add: canvas_roundRect)
  show ?thesis
    by (simp add: rect_at_roundRect [OF assms] rect_at_roundRect [OF again] js_or_def
        split: option.splits)
qed

theorem roundRect_records_witness:
  "canvas (Plot (canvas_document 200 100) ''c'' None None)
     = Some \<lparr>el_width = 200, el_height = 100, el_getContext = Some (Some Context2D)\<rparr>
   \<and> ''other'' \<noteq> ''box1''
   \<and> rect_at (final (roundRect 100 50 10 None None ''box1''
        (Plot (canvas_document 200 100) ''c'' None None))) ''box1''
     = Some \<lparr>width = 100, height = 50, radius = 10, rx = 60, ry = 25\<rparr>
   \<and> rect_at (final (roundRect 100 50 10 None None ''box1''
        (Plot (canvas_document 200 100) ''c'' None None))) ''other'' = None
   \<and> rect_at (final (roundRect 30 20 5 (Some 7) (Some 8) ''box1'' (final (roundRect 100 50 10 None
        None ''box1'' (Plot (canvas_document 200 100) ''c'' None None))))) ''box1''
     = Some \<lparr>width = 30, height = 20, radius = 5, rx = 7, ry = 8\<rparr>"
  using roundRect_records [where s = "Plot (canvas_document 200 100) ''c'' None None"
      and cv = "\<lparr>el_width = 200, el_height = 100, el_getContext = Some (Some Context2D)\<rparr>"
      and w = 100 and h = 50 and r = 10 and x = None and y = None and i = "''box1''"
      and j = "''other''" and ?w2.0 = 30 and ?h2.0 = 20 and ?r2.0 = 5 and ?x2.0 = "Some 7"
      and ?y2.0 = "Some 8"]
  by (simp add: Plot_canvas_document rect_at_def)




end
